theory Spec2Isabelle
  imports Main "HOL-Library.AList"
begin

section \<open>The wrapper of \<^verbatim>\<open>andres/hdf5/hdf5.hxx\<close>\<close>

text \<open>
  The header is a thin layer over the C interface of the storage engine. Every function
  forwards to engine calls and turns a negative return code into a thrown
  \<^verbatim>\<open>std::runtime_error\<close>. The embedding keeps that shape: the engine is a
  parameter (a record of its entry points over an engine state \<open>'s\<close>), every wrapper
  function threads the engine state through the calls in the order of the source, and a
  thrown exception is the \<open>Inl\<close> branch of the result.
\<close>

subsection \<open>Types and constants\<close>

type_synonym hid_t = int
type_synonym herr_t = int
type_synonym hsize_t = nat

datatype FileAccessMode = READ_ONLY | READ_WRITE
datatype HDF5Version = HDF5_VERSION_DEFAULT | HDF5_VERSION_LATEST

text \<open>The native type tags of \<^verbatim>\<open>hdf5.h\<close> that the header names.\<close>

datatype h5t =
    H5T_NATIVE_CHAR | H5T_NATIVE_UCHAR
  | H5T_NATIVE_SHORT | H5T_NATIVE_USHORT
  | H5T_NATIVE_INT | H5T_NATIVE_UINT
  | H5T_NATIVE_LONG | H5T_NATIVE_ULONG
  | H5T_NATIVE_LLONG | H5T_NATIVE_ULLONG
  | H5T_NATIVE_FLOAT | H5T_NATIVE_DOUBLE | H5T_NATIVE_LDOUBLE

text \<open>
  The template argument \<open>T\<close>. The thirteen types with an explicit specialisation of
  \<^verbatim>\<open>HDF5Type\<close> come first. \<open>T_signed_char\<close> is C++'s \<^verbatim>\<open>signed char\<close>, a type
  distinct from \<^verbatim>\<open>char\<close> and the usual meaning of \<^verbatim>\<open>int8_t\<close>; \<open>T_other\<close> is any
  further type, by name. Both are instances of the primary template.
\<close>

datatype cxx_type =
    T_char | T_unsigned_char
  | T_short | T_unsigned_short
  | T_int | T_unsigned_int
  | T_long | T_unsigned_long
  | T_long_long | T_unsigned_long_long
  | T_float | T_double | T_long_double
  | T_signed_char
  | T_other string

text \<open>
  The source throws \<^verbatim>\<open>std::runtime_error\<close> everywhere; the constructor records the
  kind of the throw site in the vocabulary of the specification and carries the message.
  \<open>LengthError\<close> and \<open>BadAlloc\<close> are \<^verbatim>\<open>std::length_error\<close> and
  \<^verbatim>\<open>std::bad_alloc\<close>, which \<^verbatim>\<open>std::vector::resize\<close> throws and the header does not
  catch.
\<close>

datatype error =
    CreationError string
  | OpenError string
  | ShapeError string
  | WriteError string
  | ReadError string
  | ConfigurationError string
  | LengthError
  | BadAlloc

datatype h5p_class = H5P_FILE_ACCESS
datatype h5f_libver = H5F_LIBVER_EARLIEST | H5F_LIBVER_LATEST
datatype h5f_acc = H5F_ACC_RDONLY | H5F_ACC_RDWR | H5F_ACC_TRUNC

text \<open>
  \<^verbatim>\<open>std::string::c_str()\<close> as a C function reads it: the characters before the first
  NUL. Every name reaches the engine this way.
\<close>

definition c_str :: "string \<Rightarrow> string" where
  "c_str str = takeWhile (\<lambda>c. c \<noteq> CHR 0x00) str"

definition H5P_DEFAULT :: hid_t where
  "H5P_DEFAULT = 0"

definition H5S_ALL :: hid_t where
  "H5S_ALL = 0"

subsection \<open>The engine interface\<close>

text \<open>
  One field per engine function the header calls, with the arguments of the C prototype
  (a \<^verbatim>\<open>NULL\<close> maximal-dimensions argument is left out). An out-parameter is returned
  next to the status: \<open>H5Sget_simple_extent_dims\<close> returns the extents it writes, and
  \<open>H5Dread\<close> the elements it transfers into the caller's buffer.
\<close>

record ('s, 'v) engine =
  H5Pcreate :: "h5p_class \<Rightarrow> 's \<Rightarrow> hid_t \<times> 's"
  H5Pset_libver_bounds :: "hid_t \<Rightarrow> h5f_libver \<Rightarrow> h5f_libver \<Rightarrow> 's \<Rightarrow> herr_t \<times> 's"
  H5Fcreate :: "string \<Rightarrow> h5f_acc \<Rightarrow> hid_t \<Rightarrow> hid_t \<Rightarrow> 's \<Rightarrow> hid_t \<times> 's"
  H5Fopen :: "string \<Rightarrow> h5f_acc \<Rightarrow> hid_t \<Rightarrow> 's \<Rightarrow> hid_t \<times> 's"
  H5Fclose :: "hid_t \<Rightarrow> 's \<Rightarrow> herr_t \<times> 's"
  H5Gcreate :: "hid_t \<Rightarrow> string \<Rightarrow> hid_t \<Rightarrow> hid_t \<Rightarrow> hid_t \<Rightarrow> 's \<Rightarrow> hid_t \<times> 's"
  H5Gopen :: "hid_t \<Rightarrow> string \<Rightarrow> hid_t \<Rightarrow> 's \<Rightarrow> hid_t \<times> 's"
  H5Gclose :: "hid_t \<Rightarrow> 's \<Rightarrow> herr_t \<times> 's"
  H5Screate_simple :: "int \<Rightarrow> hsize_t list \<Rightarrow> 's \<Rightarrow> hid_t \<times> 's"
  H5Sclose :: "hid_t \<Rightarrow> 's \<Rightarrow> herr_t \<times> 's"
  H5Dcreate :: "hid_t \<Rightarrow> string \<Rightarrow> h5t \<Rightarrow> hid_t \<Rightarrow> hid_t \<Rightarrow> hid_t \<Rightarrow> hid_t \<Rightarrow> 's \<Rightarrow> hid_t \<times> 's"
  H5Dopen :: "hid_t \<Rightarrow> string \<Rightarrow> hid_t \<Rightarrow> 's \<Rightarrow> hid_t \<times> 's"
  H5Dwrite :: "hid_t \<Rightarrow> h5t \<Rightarrow> hid_t \<Rightarrow> hid_t \<Rightarrow> hid_t \<Rightarrow> 'v list \<Rightarrow> 's \<Rightarrow> herr_t \<times> 's"
  H5Dread :: "hid_t \<Rightarrow> h5t \<Rightarrow> hid_t \<Rightarrow> hid_t \<Rightarrow> hid_t \<Rightarrow> 's \<Rightarrow> (herr_t \<times> 'v list) \<times> 's"
  H5Dclose :: "hid_t \<Rightarrow> 's \<Rightarrow> herr_t \<times> 's"
  H5Dget_type :: "hid_t \<Rightarrow> 's \<Rightarrow> hid_t \<times> 's"
  H5Dget_space :: "hid_t \<Rightarrow> 's \<Rightarrow> hid_t \<times> 's"
  H5Tclose :: "hid_t \<Rightarrow> 's \<Rightarrow> herr_t \<times> 's"
  H5Sget_simple_extent_ndims :: "hid_t \<Rightarrow> 's \<Rightarrow> int \<times> 's"
  H5Sget_simple_extent_dims :: "hid_t \<Rightarrow> 's \<Rightarrow> (herr_t \<times> hsize_t list) \<times> 's"

subsection \<open>The type mapping\<close>

text \<open>
  \<^verbatim>\<open>HDF5Type<T>::type()\<close>: the explicit specialisations return their tag, the primary
  template throws when it is called.
\<close>

fun HDF5Type_type :: "cxx_type \<Rightarrow> error + h5t" where
  "HDF5Type_type T_char = Inr H5T_NATIVE_CHAR"
| "HDF5Type_type T_unsigned_char = Inr H5T_NATIVE_UCHAR"
| "HDF5Type_type T_short = Inr H5T_NATIVE_SHORT"
| "HDF5Type_type T_unsigned_short = Inr H5T_NATIVE_USHORT"
| "HDF5Type_type T_int = Inr H5T_NATIVE_INT"
| "HDF5Type_type T_unsigned_int = Inr H5T_NATIVE_UINT"
| "HDF5Type_type T_long = Inr H5T_NATIVE_LONG"
| "HDF5Type_type T_unsigned_long = Inr H5T_NATIVE_ULONG"
| "HDF5Type_type T_long_long = Inr H5T_NATIVE_LLONG"
| "HDF5Type_type T_unsigned_long_long = Inr H5T_NATIVE_ULLONG"
| "HDF5Type_type T_float = Inr H5T_NATIVE_FLOAT"
| "HDF5Type_type T_double = Inr H5T_NATIVE_DOUBLE"
| "HDF5Type_type T_long_double = Inr H5T_NATIVE_LDOUBLE"
| "HDF5Type_type _ =
     Inl (ConfigurationError ''conversion of this type to HDF5 type not implemented.'')"

subsection \<open>Files and groups\<close>

definition createFile ::
  "('s, 'v) engine \<Rightarrow> string \<Rightarrow> HDF5Version \<Rightarrow> 's \<Rightarrow> (error + hid_t) \<times> 's" where
  "createFile E filename hdf5version s =
     (let (version, s1) =
            (if hdf5version = HDF5_VERSION_LATEST then
               (let (version, sa) = H5Pcreate E H5P_FILE_ACCESS s;
                    (_, sb) =
                      H5Pset_libver_bounds E version H5F_LIBVER_LATEST H5F_LIBVER_LATEST sa
                in (version, sb))
             else (H5P_DEFAULT, s));
          (fileHandle, s2) =
            H5Fcreate E (c_str filename) H5F_ACC_TRUNC H5P_DEFAULT version s1
      in if fileHandle < 0
         then (Inl (CreationError (''Could not create HDF5 file: '' @ filename)), s2)
         else (Inr fileHandle, s2))"

definition openFile ::
  "('s, 'v) engine \<Rightarrow> string \<Rightarrow> FileAccessMode \<Rightarrow> HDF5Version \<Rightarrow> 's \<Rightarrow> (error + hid_t) \<times> 's"
  where
  "openFile E filename fileAccessMode hdf5version s =
     (let access = (if fileAccessMode = READ_WRITE then H5F_ACC_RDWR else H5F_ACC_RDONLY);
          (version, s1) =
            (if hdf5version = HDF5_VERSION_LATEST then
               (let (version, sa) = H5Pcreate E H5P_FILE_ACCESS s;
                    (_, sb) =
                      H5Pset_libver_bounds E version H5F_LIBVER_LATEST H5F_LIBVER_LATEST sa
                in (version, sb))
             else (H5P_DEFAULT, s));
          (fileHandle, s2) = H5Fopen E (c_str filename) access version s1
      in if fileHandle < 0
         then (Inl (OpenError (''Could not open HDF5 file: '' @ filename)), s2)
         else (Inr fileHandle, s2))"

definition closeFile :: "('s, 'v) engine \<Rightarrow> hid_t \<Rightarrow> 's \<Rightarrow> (error + unit) \<times> 's" where
  "closeFile E handle s = (let (_, s1) = H5Fclose E handle s in (Inr (), s1))"

definition createGroup ::
  "('s, 'v) engine \<Rightarrow> hid_t \<Rightarrow> string \<Rightarrow> 's \<Rightarrow> (error + hid_t) \<times> 's" where
  "createGroup E parentHandle groupName s =
     (let (groupHandle, s1) =
            H5Gcreate E parentHandle (c_str groupName) H5P_DEFAULT H5P_DEFAULT H5P_DEFAULT s
      in if groupHandle < 0
         then (Inl (CreationError ''Could not create HDF5 group.''), s1)
         else (Inr groupHandle, s1))"

definition openGroup ::
  "('s, 'v) engine \<Rightarrow> hid_t \<Rightarrow> string \<Rightarrow> 's \<Rightarrow> (error + hid_t) \<times> 's" where
  "openGroup E parentHandle groupName s =
     (let (groupHandle, s1) = H5Gopen E parentHandle (c_str groupName) H5P_DEFAULT s
      in if groupHandle < 0
         then (Inl (OpenError ''Could not open HDF5 group.''), s1)
         else (Inr groupHandle, s1))"

definition closeGroup :: "('s, 'v) engine \<Rightarrow> hid_t \<Rightarrow> 's \<Rightarrow> (error + unit) \<times> 's" where
  "closeGroup E handle s = (let (_, s1) = H5Gclose E handle s in (Inr (), s1))"

subsection \<open>Saving and loading a vector\<close>

text \<open>
  \<^verbatim>\<open>std::vector<T>\<close> is a list of elements. What the host gives a vector is a
  parameter: \<open>max_size\<close> is \<^verbatim>\<open>max_size()\<close> of the vector type, and \<open>can_allocate n\<close>
  says whether the vector obtains storage for \<open>n\<close> elements when it has to grow to
  that size.

  \<^verbatim>\<open>resize\<close> to a size the vector already reaches keeps the leading elements. To
  grow, it throws \<^verbatim>\<open>std::length_error\<close> beyond \<open>max_size\<close> and
  \<^verbatim>\<open>std::bad_alloc\<close> when the storage is refused, both with the vector as it was;
  otherwise it appends value-initialised elements (\<open>0\<close>).

  The engine's read writes the elements it transfers over the front of the buffer; the
  vector's size does not change, and a transfer past the end of the buffer (undefined
  in C++) is cut off at the end. \<open>first_extent\<close> is the value of \<^verbatim>\<open>size\<close> after the
  extents were queried: it starts as \<open>0\<close> and is overwritten by the first extent the
  engine writes.
\<close>

record memory =
  max_size :: nat
  can_allocate :: "nat \<Rightarrow> bool"

definition resize :: "memory \<Rightarrow> nat \<Rightarrow> 'v::zero list \<Rightarrow> error + 'v list" where
  "resize M n xs =
     (if n \<le> length xs then Inr (take n xs)
      else if max_size M < n then Inl LengthError
      else if can_allocate M n then Inr (xs @ replicate (n - length xs) 0)
      else Inl BadAlloc)"

definition first_extent :: "hsize_t list \<Rightarrow> hsize_t" where
  "first_extent dims = (case dims of [] \<Rightarrow> 0 | d # _ \<Rightarrow> d)"

definition store_into :: "'v list \<Rightarrow> 'v list \<Rightarrow> 'v list" where
  "store_into buf vals = take (length buf) (vals @ drop (length vals) buf)"

definition save ::
  "('s, 'v) engine \<Rightarrow> hid_t \<Rightarrow> string \<Rightarrow> cxx_type \<Rightarrow> 'v list \<Rightarrow> 's \<Rightarrow> (error + unit) \<times> 's"
  where
  "save E parentHandle datasetName T data s =
     (let shape = [length data];
          (dataspace, s1) = H5Screate_simple E 1 shape s
      in if dataspace < 0
         then (Inl (ShapeError ''could not create HDF5 dataspace.''), s1)
         else
           (case HDF5Type_type T of
              Inl e \<Rightarrow> (Inl e, s1)
            | Inr typeMemory \<Rightarrow>
                (let (dataset, s2) =
                       H5Dcreate E parentHandle (c_str datasetName) typeMemory dataspace
                         H5P_DEFAULT H5P_DEFAULT H5P_DEFAULT s1
                 in if dataset < 0
                    then (let (_, s3) = H5Sclose E dataspace s2
                          in (Inl (CreationError ''could not create HDF5 dataset.''), s3))
                    else
                      (let (status, s3) =
                             H5Dwrite E dataset typeMemory H5S_ALL H5S_ALL H5P_DEFAULT data s2
                       in if status < 0
                          then (let (_, s4) = H5Dclose E dataset s3;
                                    (_, s5) = H5Sclose E dataspace s4
                                in (Inl (WriteError ''could not write to HDF5 dataset.''), s5))
                          else (Inr (), s3)))))"

text \<open>
  \<open>load\<close> returns the result, the vector as the call leaves it (it is a reference
  parameter, so what was done to it stays done when the call throws), and the engine state.
  The resize of line 221 comes before the type mapping, which is evaluated as an argument
  of the read in line 222.
\<close>

definition load ::
  "memory \<Rightarrow> ('s, 'v::zero) engine \<Rightarrow> hid_t \<Rightarrow> string \<Rightarrow> cxx_type \<Rightarrow> 'v list \<Rightarrow> 's
     \<Rightarrow> (error + unit) \<times> 'v list \<times> 's"
  where
  "load M E parentHandle datasetName T data s =
     (let (dataset, s1) = H5Dopen E parentHandle (c_str datasetName) H5P_DEFAULT s
      in if dataset < 0
         then (Inl (OpenError ''could not open HDF5 dataset.''), data, s1)
         else
           (let (typeFile, s2) = H5Dget_type E dataset s1;
                (filespace, s3) = H5Dget_space E dataset s2;
                (dimension, s4) = H5Sget_simple_extent_ndims E filespace s3
            in if dimension \<noteq> 1
               then (Inl (ShapeError ''HDF5 dataset is not one-dimensional.''), data, s4)
               else
                 (let ((status, dims), s5) = H5Sget_simple_extent_dims E filespace s4;
                      size = first_extent dims
                  in if status < 0
                     then (let (_, s6) = H5Dclose E dataset s5;
                               (_, s7) = H5Tclose E typeFile s6;
                               (_, s8) = H5Sclose E filespace s7
                           in (Inl (ShapeError ''could not get shape of HDF5 dataset.''),
                               data, s8))
                     else
                       (case resize M size data of
                          Inl e \<Rightarrow> (Inl e, data, s5)
                        | Inr data1 \<Rightarrow>
                            (case HDF5Type_type T of
                               Inl e \<Rightarrow> (Inl e, data1, s5)
                             | Inr ty \<Rightarrow>
                                 (let ((status2, vals), s6) =
                                        H5Dread E dataset ty H5S_ALL H5S_ALL H5P_DEFAULT s5;
                                      data2 = store_into data1 vals;
                                      (_, s7) = H5Dclose E dataset s6;
                                      (_, s8) = H5Tclose E typeFile s7;
                                      (_, s9) = H5Sclose E filespace s8
                                  in if status2 < 0
                                     then (Inl (ReadError
                                            ''could not read from HDF5 dataset 'points'.''),
                                           data2, s9)
                                     else (Inr (), data2, s9)))))))"

subsection \<open>The supported types in the words of the specification\<close>

text \<open>
  The specification lists the supported element types by kind and width: the signed and
  unsigned integers of 8, 16, 32 and 64 bits, and the floating-point types. Over the C++
  types this reads as follows; the widths are those of the 64-bit Unix data model, and on
  every data model in use each is one of the four listed. A type known only by name
  (\<open>T_other\<close>) is not taken to be an integer.
\<close>

fun is_integer_type :: "cxx_type \<Rightarrow> bool" where
  "is_integer_type (T_other _) = False"
| "is_integer_type T_float = False"
| "is_integer_type T_double = False"
| "is_integer_type T_long_double = False"
| "is_integer_type _ = True"

fun is_floating_type :: "cxx_type \<Rightarrow> bool" where
  "is_floating_type T_float = True"
| "is_floating_type T_double = True"
| "is_floating_type T_long_double = True"
| "is_floating_type _ = False"

fun bit_width :: "cxx_type \<Rightarrow> nat" where
  "bit_width T_char = 8"
| "bit_width T_signed_char = 8"
| "bit_width T_unsigned_char = 8"
| "bit_width T_short = 16"
| "bit_width T_unsigned_short = 16"
| "bit_width T_int = 32"
| "bit_width T_unsigned_int = 32"
| "bit_width T_long = 64"
| "bit_width T_unsigned_long = 64"
| "bit_width T_long_long = 64"
| "bit_width T_unsigned_long_long = 64"
| "bit_width T_float = 32"
| "bit_width T_double = 64"
| "bit_width T_long_double = 128"
| "bit_width (T_other _) = 0"

definition spec_supported :: "cxx_type \<Rightarrow> bool" where
  "spec_supported T =
     (is_integer_type T \<and> bit_width T \<in> set [8, 16, 32, 64] \<or> is_floating_type T)"

text \<open>The types for which the header has an explicit specialisation, in its order.\<close>

definition specialised :: "cxx_type list" where
  "specialised =
     [T_char, T_unsigned_char, T_short, T_unsigned_short, T_int, T_unsigned_int,
      T_long, T_unsigned_long, T_long_long, T_unsigned_long_long,
      T_float, T_double, T_long_double]"

section \<open>A reference engine\<close>

text \<open>
  Modelled from the spec: the storage engine behind \<^verbatim>\<open>hdf5.h\<close> is an external
  library and no part of the repository. The reference engine implements the
  capabilities the specification lists for it: containers holding a tree of named groups
  and typed array entries, read-only or read-write access, shapes, and the descriptors
  the engine hands out and takes back. It is one instance of the interface above; it
  serves the properties that depend on what the engine stores, and it counts the
  descriptors that are open.

  Names are single link names directly under the parent. Every descriptor is a fresh
  positive number. \<open>io_fault\<close> stands for a failing medium: while it is set, the
  transfer of raw contents fails. A transfer between different type tags converts each
  element with \<open>conv\<close>, a parameter.
\<close>

datatype 'v node =
    Group "(string \<times> nat) list"
  | Dataset h5t "hsize_t list" "'v list"

datatype obj =
    FileObj nat bool
  | GroupObj nat bool
  | DatasetObj nat bool
  | SpaceObj "hsize_t list"
  | TypeObj h5t
  | PlistObj bool

record 'v rstate =
  next_id :: hid_t
  objs :: "(hid_t \<times> obj) list"
  next_node :: nat
  nodes :: "(nat \<times> 'v node) list"
  disk :: "(string \<times> nat) list"
  io_fault :: bool

definition alloc :: "obj \<Rightarrow> 'v rstate \<Rightarrow> hid_t \<times> 'v rstate" where
  "alloc x s = (next_id s, s\<lparr>next_id := next_id s + 1, objs := (next_id s, x) # objs s\<rparr>)"

definition release :: "hid_t \<Rightarrow> 'v rstate \<Rightarrow> herr_t \<times> 'v rstate" where
  "release i s = (0, s\<lparr>objs := AList.delete i (objs s)\<rparr>)"

definition location :: "'v rstate \<Rightarrow> hid_t \<Rightarrow> (nat \<times> bool) option" where
  "location s h =
     (case map_of (objs s) h of
        Some (FileObj n w) \<Rightarrow> Some (n, w)
      | Some (GroupObj n w) \<Rightarrow> Some (n, w)
      | _ \<Rightarrow> None)"

definition links :: "'v rstate \<Rightarrow> nat \<Rightarrow> (string \<times> nat) list option" where
  "links s n = (case map_of (nodes s) n of Some (Group ls) \<Rightarrow> Some ls | _ \<Rightarrow> None)"

definition plist_ok :: "'v rstate \<Rightarrow> hid_t \<Rightarrow> bool" where
  "plist_ok s p =
     (p = H5P_DEFAULT \<or> (case map_of (objs s) p of Some (PlistObj _) \<Rightarrow> True | _ \<Rightarrow> False))"

text \<open>
  Where a new link \<open>name\<close> may be made under \<open>h\<close>: \<open>h\<close> is an open file or group of a
  container opened for writing, and the name is not empty and not taken.
\<close>

definition can_create ::
  "'v rstate \<Rightarrow> hid_t \<Rightarrow> string \<Rightarrow> (nat \<times> (string \<times> nat) list) option" where
  "can_create s h name =
     (case location s h of
        None \<Rightarrow> None
      | Some (n, w) \<Rightarrow>
          (case links s n of
             None \<Rightarrow> None
           | Some ls \<Rightarrow>
               if w \<and> name \<noteq> [] \<and> map_of ls name = None then Some (n, ls) else None))"

text \<open>The node a name denotes under \<open>h\<close>, with the access of \<open>h\<close>.\<close>

definition lookup :: "'v rstate \<Rightarrow> hid_t \<Rightarrow> string \<Rightarrow> (nat \<times> bool) option" where
  "lookup s h name =
     (case location s h of
        None \<Rightarrow> None
      | Some (n, w) \<Rightarrow>
          (case links s n of
             None \<Rightarrow> None
           | Some ls \<Rightarrow> (case map_of ls name of None \<Rightarrow> None | Some m \<Rightarrow> Some (m, w))))"

definition lookup_dataset :: "'v rstate \<Rightarrow> hid_t \<Rightarrow> string \<Rightarrow> (nat \<times> bool) option" where
  "lookup_dataset s h name =
     (case lookup s h name of
        None \<Rightarrow> None
      | Some (m, w) \<Rightarrow>
          (case map_of (nodes s) m of Some (Dataset _ _ _) \<Rightarrow> Some (m, w) | _ \<Rightarrow> None))"

definition lookup_group :: "'v rstate \<Rightarrow> hid_t \<Rightarrow> string \<Rightarrow> (nat \<times> bool) option" where
  "lookup_group s h name =
     (case lookup s h name of
        None \<Rightarrow> None
      | Some (m, w) \<Rightarrow> (case map_of (nodes s) m of Some (Group _) \<Rightarrow> Some (m, w) | _ \<Rightarrow> None))"

definition convert :: "(h5t \<Rightarrow> h5t \<Rightarrow> 'v \<Rightarrow> 'v) \<Rightarrow> h5t \<Rightarrow> h5t \<Rightarrow> 'v \<Rightarrow> 'v" where
  "convert conv a b x = (if a = b then x else conv a b x)"

subsection \<open>Property lists and files\<close>

definition r_H5Pcreate :: "h5p_class \<Rightarrow> 'v rstate \<Rightarrow> hid_t \<times> 'v rstate" where
  "r_H5Pcreate cls s = alloc (PlistObj False) s"

definition r_H5Pset_libver_bounds ::
  "hid_t \<Rightarrow> h5f_libver \<Rightarrow> h5f_libver \<Rightarrow> 'v rstate \<Rightarrow> herr_t \<times> 'v rstate" where
  "r_H5Pset_libver_bounds p lo hi s =
     (case map_of (objs s) p of
        Some (PlistObj _) \<Rightarrow>
          (0, s\<lparr>objs := AList.update p (PlistObj (hi = H5F_LIBVER_LATEST)) (objs s)\<rparr>)
      | _ \<Rightarrow> (- 1, s))"

definition r_H5Fcreate ::
  "string \<Rightarrow> h5f_acc \<Rightarrow> hid_t \<Rightarrow> hid_t \<Rightarrow> 'v rstate \<Rightarrow> hid_t \<times> 'v rstate" where
  "r_H5Fcreate name flags fcpl fapl s =
     (if name \<noteq> [] \<and> flags = H5F_ACC_TRUNC \<and> plist_ok s fcpl \<and> plist_ok s fapl
      then
        (let r = next_node s
         in alloc (FileObj r True)
              (s\<lparr>next_node := r + 1,
                 nodes := (r, Group []) # nodes s,
                 disk := AList.update name r (disk s)\<rparr>))
      else (- 1, s))"

definition r_H5Fopen :: "string \<Rightarrow> h5f_acc \<Rightarrow> hid_t \<Rightarrow> 'v rstate \<Rightarrow> hid_t \<times> 'v rstate" where
  "r_H5Fopen name flags fapl s =
     (case map_of (disk s) name of
        None \<Rightarrow> (- 1, s)
      | Some r \<Rightarrow>
          if flags \<noteq> H5F_ACC_TRUNC \<and> plist_ok s fapl
          then alloc (FileObj r (flags = H5F_ACC_RDWR)) s
          else (- 1, s))"

definition r_H5Fclose :: "hid_t \<Rightarrow> 'v rstate \<Rightarrow> herr_t \<times> 'v rstate" where
  "r_H5Fclose i s =
     (case map_of (objs s) i of Some (FileObj _ _) \<Rightarrow> release i s | _ \<Rightarrow> (- 1, s))"

subsection \<open>Groups\<close>

definition r_H5Gcreate ::
  "hid_t \<Rightarrow> string \<Rightarrow> hid_t \<Rightarrow> hid_t \<Rightarrow> hid_t \<Rightarrow> 'v rstate \<Rightarrow> hid_t \<times> 'v rstate" where
  "r_H5Gcreate h name lcpl gcpl gapl s =
     (case can_create s h name of
        None \<Rightarrow> (- 1, s)
      | Some (n, ls) \<Rightarrow>
          (let m = next_node s
           in alloc (GroupObj m True)
                (s\<lparr>next_node := m + 1,
                   nodes := (m, Group []) # AList.update n (Group ((name, m) # ls)) (nodes s)\<rparr>)))"

definition r_H5Gopen :: "hid_t \<Rightarrow> string \<Rightarrow> hid_t \<Rightarrow> 'v rstate \<Rightarrow> hid_t \<times> 'v rstate" where
  "r_H5Gopen h name gapl s =
     (case lookup_group s h name of
        None \<Rightarrow> (- 1, s)
      | Some (m, w) \<Rightarrow> alloc (GroupObj m w) s)"

definition r_H5Gclose :: "hid_t \<Rightarrow> 'v rstate \<Rightarrow> herr_t \<times> 'v rstate" where
  "r_H5Gclose i s =
     (case map_of (objs s) i of Some (GroupObj _ _) \<Rightarrow> release i s | _ \<Rightarrow> (- 1, s))"

subsection \<open>Shapes\<close>

definition r_H5Screate_simple :: "int \<Rightarrow> hsize_t list \<Rightarrow> 'v rstate \<Rightarrow> hid_t \<times> 'v rstate" where
  "r_H5Screate_simple rank dims s =
     (if rank = int (length dims) \<and> 0 < rank \<and> rank \<le> 32 then alloc (SpaceObj dims) s
      else (- 1, s))"

definition r_H5Sclose :: "hid_t \<Rightarrow> 'v rstate \<Rightarrow> herr_t \<times> 'v rstate" where
  "r_H5Sclose i s =
     (case map_of (objs s) i of Some (SpaceObj _) \<Rightarrow> release i s | _ \<Rightarrow> (- 1, s))"

definition r_H5Sget_simple_extent_ndims :: "hid_t \<Rightarrow> 'v rstate \<Rightarrow> int \<times> 'v rstate" where
  "r_H5Sget_simple_extent_ndims i s =
     (case map_of (objs s) i of Some (SpaceObj dims) \<Rightarrow> (int (length dims), s) | _ \<Rightarrow> (- 1, s))"

definition r_H5Sget_simple_extent_dims ::
  "hid_t \<Rightarrow> 'v rstate \<Rightarrow> (herr_t \<times> hsize_t list) \<times> 'v rstate" where
  "r_H5Sget_simple_extent_dims i s =
     (case map_of (objs s) i of
        Some (SpaceObj dims) \<Rightarrow> ((int (length dims), dims), s)
      | _ \<Rightarrow> ((- 1, []), s))"

subsection \<open>Array entries\<close>

text \<open>
  A new entry holds the fill value \<open>0\<close> in every position. The transfer functions move
  the whole entry; the wrapper passes \<^verbatim>\<open>H5S_ALL\<close> and \<^verbatim>\<open>H5P_DEFAULT\<close> for the selection
  and transfer arguments, which the reference engine does not inspect.
\<close>

definition r_H5Dcreate ::
  "hid_t \<Rightarrow> string \<Rightarrow> h5t \<Rightarrow> hid_t \<Rightarrow> hid_t \<Rightarrow> hid_t \<Rightarrow> hid_t \<Rightarrow> 'v::zero rstate
     \<Rightarrow> hid_t \<times> 'v rstate" where
  "r_H5Dcreate h name ty space lcpl dcpl dapl s =
     (case can_create s h name of
        None \<Rightarrow> (- 1, s)
      | Some (n, ls) \<Rightarrow>
          (case map_of (objs s) space of
             Some (SpaceObj dims) \<Rightarrow>
               (let m = next_node s
                in alloc (DatasetObj m True)
                     (s\<lparr>next_node := m + 1,
                        nodes := (m, Dataset ty dims (replicate (prod_list dims) 0))
                                 # AList.update n (Group ((name, m) # ls)) (nodes s)\<rparr>))
           | _ \<Rightarrow> (- 1, s)))"

definition r_H5Dopen :: "hid_t \<Rightarrow> string \<Rightarrow> hid_t \<Rightarrow> 'v rstate \<Rightarrow> hid_t \<times> 'v rstate" where
  "r_H5Dopen h name dapl s =
     (case lookup_dataset s h name of
        None \<Rightarrow> (- 1, s)
      | Some (m, w) \<Rightarrow> alloc (DatasetObj m w) s)"

definition r_H5Dclose :: "hid_t \<Rightarrow> 'v rstate \<Rightarrow> herr_t \<times> 'v rstate" where
  "r_H5Dclose i s =
     (case map_of (objs s) i of Some (DatasetObj _ _) \<Rightarrow> release i s | _ \<Rightarrow> (- 1, s))"

definition r_H5Dget_type :: "hid_t \<Rightarrow> 'v rstate \<Rightarrow> hid_t \<times> 'v rstate" where
  "r_H5Dget_type i s =
     (case map_of (objs s) i of
        Some (DatasetObj m _) \<Rightarrow>
          (case map_of (nodes s) m of
             Some (Dataset ty _ _) \<Rightarrow> alloc (TypeObj ty) s
           | _ \<Rightarrow> (- 1, s))
      | _ \<Rightarrow> (- 1, s))"

definition r_H5Dget_space :: "hid_t \<Rightarrow> 'v rstate \<Rightarrow> hid_t \<times> 'v rstate" where
  "r_H5Dget_space i s =
     (case map_of (objs s) i of
        Some (DatasetObj m _) \<Rightarrow>
          (case map_of (nodes s) m of
             Some (Dataset _ dims _) \<Rightarrow> alloc (SpaceObj dims) s
           | _ \<Rightarrow> (- 1, s))
      | _ \<Rightarrow> (- 1, s))"

definition r_H5Tclose :: "hid_t \<Rightarrow> 'v rstate \<Rightarrow> herr_t \<times> 'v rstate" where
  "r_H5Tclose i s =
     (case map_of (objs s) i of Some (TypeObj _) \<Rightarrow> release i s | _ \<Rightarrow> (- 1, s))"

definition r_H5Dwrite ::
  "(h5t \<Rightarrow> h5t \<Rightarrow> 'v \<Rightarrow> 'v) \<Rightarrow> hid_t \<Rightarrow> h5t \<Rightarrow> hid_t \<Rightarrow> hid_t \<Rightarrow> hid_t \<Rightarrow> 'v list \<Rightarrow> 'v rstate
     \<Rightarrow> herr_t \<times> 'v rstate" where
  "r_H5Dwrite conv i memty mspace fspace xfer buf s =
     (case map_of (objs s) i of
        Some (DatasetObj m w) \<Rightarrow>
          (case map_of (nodes s) m of
             Some (Dataset ty dims old) \<Rightarrow>
               if w \<and> \<not> io_fault s
               then
                 (0, s\<lparr>nodes :=
                         AList.update m
                           (Dataset ty dims
                              (map (convert conv memty ty) (take (prod_list dims) buf)))
                           (nodes s)\<rparr>)
               else (- 1, s)
           | _ \<Rightarrow> (- 1, s))
      | _ \<Rightarrow> (- 1, s))"

definition r_H5Dread ::
  "(h5t \<Rightarrow> h5t \<Rightarrow> 'v \<Rightarrow> 'v) \<Rightarrow> hid_t \<Rightarrow> h5t \<Rightarrow> hid_t \<Rightarrow> hid_t \<Rightarrow> hid_t \<Rightarrow> 'v rstate
     \<Rightarrow> (herr_t \<times> 'v list) \<times> 'v rstate" where
  "r_H5Dread conv i memty mspace fspace xfer s =
     (case map_of (objs s) i of
        Some (DatasetObj m _) \<Rightarrow>
          (case map_of (nodes s) m of
             Some (Dataset ty _ xs) \<Rightarrow>
               if io_fault s then ((- 1, []), s)
               else ((0, map (convert conv ty memty) xs), s)
           | _ \<Rightarrow> ((- 1, []), s))
      | _ \<Rightarrow> ((- 1, []), s))"

definition ref_engine :: "(h5t \<Rightarrow> h5t \<Rightarrow> 'v \<Rightarrow> 'v) \<Rightarrow> ('v::zero rstate, 'v) engine" where
  "ref_engine conv =
     \<lparr>H5Pcreate = r_H5Pcreate,
      H5Pset_libver_bounds = r_H5Pset_libver_bounds,
      H5Fcreate = r_H5Fcreate,
      H5Fopen = r_H5Fopen,
      H5Fclose = r_H5Fclose,
      H5Gcreate = r_H5Gcreate,
      H5Gopen = r_H5Gopen,
      H5Gclose = r_H5Gclose,
      H5Screate_simple = r_H5Screate_simple,
      H5Sclose = r_H5Sclose,
      H5Dcreate = r_H5Dcreate,
      H5Dopen = r_H5Dopen,
      H5Dwrite = r_H5Dwrite conv,
      H5Dread = r_H5Dread conv,
      H5Dclose = r_H5Dclose,
      H5Dget_type = r_H5Dget_type,
      H5Dget_space = r_H5Dget_space,
      H5Tclose = r_H5Tclose,
      H5Sget_simple_extent_ndims = r_H5Sget_simple_extent_ndims,
      H5Sget_simple_extent_dims = r_H5Sget_simple_extent_dims\<rparr>"

text \<open>
  The states the reference engine reaches from the empty one: descriptors in use are
  positive and below the next one to be handed out, and likewise for the nodes.
\<close>

definition wf :: "'v rstate \<Rightarrow> bool" where
  "wf s =
     (0 < next_id s \<and>
      list_all (\<lambda>p. 0 < fst p \<and> fst p < next_id s) (objs s) \<and>
      list_all (\<lambda>p. fst p < next_node s) (nodes s))"

definition empty_state :: "'v rstate" where
  "empty_state =
     \<lparr>next_id = 1, objs = [], next_node = 0, nodes = [], disk = [], io_fault = False\<rparr>"

text \<open>The descriptors that are open.\<close>

definition open_ids :: "'v rstate \<Rightarrow> hid_t set" where
  "open_ids s = fst ` set (objs s)"

subsection \<open>Example states\<close>

text \<open>
  Concrete states of the reference engine over integer elements, with the identity as
  conversion: a new container \<^verbatim>\<open>f.h5\<close> open for writing under descriptor \<open>1\<close>; the same
  after the vector \<open>[3, 4, 5]\<close> was saved as \<^verbatim>\<open>x\<close>; the container closed, and opened
  again read-only under descriptor \<open>4\<close>; a container \<^verbatim>\<open>g.h5\<close>, written by
  another program, whose entry \<^verbatim>\<open>m\<close> is a two by two matrix; and a container
  \<^verbatim>\<open>h.h5\<close> whose entry \<^verbatim>\<open>big\<close> is declared with \<open>2 ^ 62\<close> elements, none of them
  written. \<open>example_memory\<close> is a 64-bit host for a vector of four-byte elements
  (\<open>max_size = 2 ^ 61 - 1\<close>) that grants storage for up to \<open>2 ^ 20\<close> elements.
\<close>

definition example_memory :: memory where
  "example_memory =
     \<lparr>max_size = 2305843009213693951, can_allocate = (\<lambda>n. n \<le> 1048576)\<rparr>"

definition example_engine :: "(int rstate, int) engine" where
  "example_engine = ref_engine (\<lambda>_ _ x. x)"

definition example_file :: "int rstate" where
  "example_file =
     \<lparr>next_id = 2, objs = [(1, FileObj 0 True)], next_node = 1, nodes = [(0, Group [])],
      disk = [(''f.h5'', 0)], io_fault = False\<rparr>"

definition example_saved :: "int rstate" where
  "example_saved =
     \<lparr>next_id = 4,
      objs = [(3, DatasetObj 1 True), (2, SpaceObj [3]), (1, FileObj 0 True)],
      next_node = 2,
      nodes = [(1, Dataset H5T_NATIVE_INT [3] [3, 4, 5]), (0, Group [(''x'', 1)])],
      disk = [(''f.h5'', 0)], io_fault = False\<rparr>"

definition example_closed :: "int rstate" where
  "example_closed =
     \<lparr>next_id = 4, objs = [], next_node = 2,
      nodes = [(1, Dataset H5T_NATIVE_INT [3] [3, 4, 5]), (0, Group [(''x'', 1)])],
      disk = [(''f.h5'', 0)], io_fault = False\<rparr>"

definition example_readonly :: "int rstate" where
  "example_readonly = example_closed\<lparr>next_id := 5, objs := [(4, FileObj 0 False)]\<rparr>"

definition example_huge :: "int rstate" where
  "example_huge =
     \<lparr>next_id = 2, objs = [(1, FileObj 0 False)], next_node = 2,
      nodes = [(1, Dataset H5T_NATIVE_INT [4611686018427387904] []),
               (0, Group [(''big'', 1)])],
      disk = [(''h.h5'', 0)], io_fault = False\<rparr>"

definition example_matrix :: "int rstate" where
  "example_matrix =
     \<lparr>next_id = 2, objs = [(1, FileObj 0 False)], next_node = 2,
      nodes = [(1, Dataset H5T_NATIVE_INT [2, 2] [1, 2, 3, 4]), (0, Group [(''m'', 1)])],
      disk = [(''g.h5'', 0)], io_fault = False\<rparr>"

section \<open>Basic facts\<close>

lemma resize_Inr:
  "resize M n xs = Inr ys \<Longrightarrow>
     ys = take n xs @ replicate (n - length xs) 0 \<and> length ys = n"
  by (auto simp: resize_def split: if_splits)

lemma resize_Inl:
  "resize M n xs = Inl e \<Longrightarrow> (e = LengthError \<or> e = BadAlloc) \<and> length xs < n"
  by (auto simp: resize_def split: if_splits)

lemma resize_within:
  "n \<le> length xs \<or> n \<le> max_size M \<and> can_allocate M n \<Longrightarrow>
     resize M n xs = Inr (take n xs @ replicate (n - length xs) 0)"
  by (auto simp: resize_def)

lemma c_str_no_nul: "CHR 0x00 \<notin> set str \<Longrightarrow> c_str str = str"
  by (auto simp: c_str_def takeWhile_eq_all_conv)

lemma length_store_into: "length (store_into buf vals) = length buf"
  by (simp add: store_into_def)

lemma store_into_exact: "length vals = length buf \<Longrightarrow> store_into buf vals = vals"
  by (simp add: store_into_def)

lemma HDF5Type_type_error:
  "HDF5Type_type T = Inl e \<Longrightarrow>
     e = ConfigurationError ''conversion of this type to HDF5 type not implemented.''"
  by (cases T) simp_all

lemma convert_same: "convert conv a a = (\<lambda>x. x)"
  by (simp add: convert_def fun_eq_iff)

section \<open>The type mapping\<close>

text \<open>
  C5, as stated, fails. The claim lets the mapping yield a tag for every signed and
  unsigned integer type of 8, 16, 32 or 64 bits. \<^verbatim>\<open>signed char\<close> is such a type, and
  \<^verbatim>\<open>HDF5Type<signed char>\<close> is the primary template: its \<^verbatim>\<open>type()\<close> throws.
\<close>

theorem type_mapping_counterexample:
  "spec_supported T_signed_char \<and>
   HDF5Type_type T_signed_char =
     Inl (ConfigurationError ''conversion of this type to HDF5 type not implemented.'')"
  by (simp add: spec_supported_def)

text \<open>
  The types the specification lists and the header does not map are exactly this one.
\<close>

lemma spec_supported_iff:
  "spec_supported T \<longleftrightarrow> T \<in> set specialised \<or> T = T_signed_char"
  by (cases T) (simp_all add: spec_supported_def specialised_def)

text \<open>
  C5, amended. For each of the thirteen types with an explicit specialisation
  (\<^verbatim>\<open>char\<close>, \<^verbatim>\<open>unsigned char\<close>, \<^verbatim>\<open>short\<close>, \<^verbatim>\<open>unsigned short\<close>, \<^verbatim>\<open>int\<close>,
  \<^verbatim>\<open>unsigned int\<close>, \<^verbatim>\<open>long\<close>, \<^verbatim>\<open>unsigned long\<close>, \<^verbatim>\<open>long long\<close>,
  \<^verbatim>\<open>unsigned long long\<close>, \<^verbatim>\<open>float\<close>, \<^verbatim>\<open>double\<close>, \<^verbatim>\<open>long double\<close>) the mapping
  yields the native tag of that type, and for every other type, \<^verbatim>\<open>signed char\<close>
  included, it raises the ConfigurationError when \<^verbatim>\<open>type()\<close> is called.
\<close>

theorem type_mapping_specialised:
  "map HDF5Type_type specialised =
     map Inr [H5T_NATIVE_CHAR, H5T_NATIVE_UCHAR, H5T_NATIVE_SHORT, H5T_NATIVE_USHORT,
              H5T_NATIVE_INT, H5T_NATIVE_UINT, H5T_NATIVE_LONG, H5T_NATIVE_ULONG,
              H5T_NATIVE_LLONG, H5T_NATIVE_ULLONG,
              H5T_NATIVE_FLOAT, H5T_NATIVE_DOUBLE, H5T_NATIVE_LDOUBLE] \<and>
   (\<forall>T. T \<notin> set specialised \<longrightarrow>
      HDF5Type_type T =
        Inl (ConfigurationError ''conversion of this type to HDF5 type not implemented.''))"
proof (intro conjI allI impI)
  show "map HDF5Type_type specialised =
     map Inr [H5T_NATIVE_CHAR, H5T_NATIVE_UCHAR, H5T_NATIVE_SHORT, H5T_NATIVE_USHORT,
              H5T_NATIVE_INT, H5T_NATIVE_UINT, H5T_NATIVE_LONG, H5T_NATIVE_ULONG,
              H5T_NATIVE_LLONG, H5T_NATIVE_ULLONG,
              H5T_NATIVE_FLOAT, H5T_NATIVE_DOUBLE, H5T_NATIVE_LDOUBLE]"
    by (simp add: specialised_def)
next
  fix T assume "T \<notin> set specialised"
  then show "HDF5Type_type T =
        Inl (ConfigurationError ''conversion of this type to HDF5 type not implemented.'')"
    by (cases T) (simp_all add: specialised_def)
qed

theorem type_mapping_specialised_witness:
  "T_other ''bool'' \<notin> set specialised \<and>
   HDF5Type_type (T_other ''bool'') =
     Inl (ConfigurationError ''conversion of this type to HDF5 type not implemented.'')"
  using type_mapping_specialised by (simp add: specialised_def)

section \<open>Properties that hold for every engine\<close>

subsection \<open>Handles returned by the file and group functions\<close>

text \<open>
  C6. Each of \<open>createFile\<close>, \<open>openFile\<close>, \<open>createGroup\<close> and \<open>openGroup\<close> either
  returns a handle that is not negative or throws; no negative handle reaches the caller.
  The error of the two file functions is the fixed message followed by the file name.
  This holds whatever the engine answers.
\<close>

theorem handle_nonneg_or_error:
  "(case fst (createFile E filename ver s) of
      Inl e \<Rightarrow> e = CreationError (''Could not create HDF5 file: '' @ filename)
    | Inr h \<Rightarrow> 0 \<le> h) \<and>
   (case fst (openFile E filename mode ver s) of
      Inl e \<Rightarrow> e = OpenError (''Could not open HDF5 file: '' @ filename)
    | Inr h \<Rightarrow> 0 \<le> h) \<and>
   (case fst (createGroup E parent name s) of
      Inl e \<Rightarrow> e = CreationError ''Could not create HDF5 group.''
    | Inr h \<Rightarrow> 0 \<le> h) \<and>
   (case fst (openGroup E parent name s) of
      Inl e \<Rightarrow> e = OpenError ''Could not open HDF5 group.''
    | Inr h \<Rightarrow> 0 \<le> h)"
  by (simp add: createFile_def openFile_def createGroup_def openGroup_def Let_def
      split: prod.splits)

subsection \<open>Closing\<close>

text \<open>
  C7. \<open>closeFile\<close> and \<open>closeGroup\<close> never signal a failure: whatever status the
  engine's release call returns, the wrapper returns normally, and the only effect is
  the engine's own state change of that one release call.
\<close>

theorem close_never_fails:
  "closeFile E handle s = (Inr (), snd (H5Fclose E handle s)) \<and>
   closeGroup E handle s = (Inr (), snd (H5Gclose E handle s))"
  by (simp add: closeFile_def closeGroup_def split: prod.splits)

section \<open>Evaluating the reference engine\<close>

lemma ref_engine_fields:
  "H5Pcreate (ref_engine c) = r_H5Pcreate"
  "H5Pset_libver_bounds (ref_engine c) = r_H5Pset_libver_bounds"
  "H5Fcreate (ref_engine c) = r_H5Fcreate"
  "H5Fopen (ref_engine c) = r_H5Fopen"
  "H5Fclose (ref_engine c) = r_H5Fclose"
  "H5Gcreate (ref_engine c) = r_H5Gcreate"
  "H5Gopen (ref_engine c) = r_H5Gopen"
  "H5Gclose (ref_engine c) = r_H5Gclose"
  "H5Screate_simple (ref_engine c) = r_H5Screate_simple"
  "H5Sclose (ref_engine c) = r_H5Sclose"
  "H5Dcreate (ref_engine c) = r_H5Dcreate"
  "H5Dopen (ref_engine c) = r_H5Dopen"
  "H5Dwrite (ref_engine c) = r_H5Dwrite c"
  "H5Dread (ref_engine c) = r_H5Dread c"
  "H5Dclose (ref_engine c) = r_H5Dclose"
  "H5Dget_type (ref_engine c) = r_H5Dget_type"
  "H5Dget_space (ref_engine c) = r_H5Dget_space"
  "H5Tclose (ref_engine c) = r_H5Tclose"
  "H5Sget_simple_extent_ndims (ref_engine c) = r_H5Sget_simple_extent_ndims"
  "H5Sget_simple_extent_dims (ref_engine c) = r_H5Sget_simple_extent_dims"
  by (simp_all add: ref_engine_def)

lemmas ref_eval =
  ref_engine_fields r_H5Pcreate_def r_H5Pset_libver_bounds_def r_H5Fcreate_def r_H5Fopen_def
  r_H5Fclose_def r_H5Gcreate_def r_H5Gopen_def r_H5Gclose_def r_H5Screate_simple_def
  r_H5Sclose_def r_H5Sget_simple_extent_ndims_def r_H5Sget_simple_extent_dims_def
  r_H5Dcreate_def r_H5Dopen_def r_H5Dclose_def r_H5Dget_type_def r_H5Dget_space_def
  r_H5Tclose_def r_H5Dwrite_def r_H5Dread_def alloc_def release_def location_def links_def
  plist_ok_def can_create_def lookup_def lookup_dataset_def lookup_group_def convert_def
  H5P_DEFAULT_def H5S_ALL_def c_str_def Let_def

lemma example_file_created:
  "createFile example_engine ''f.h5'' HDF5_VERSION_DEFAULT empty_state = (Inr 1, example_file)"
  by (simp add: createFile_def example_engine_def empty_state_def
      example_file_def ref_eval)

lemma example_saved_saved:
  "save example_engine 1 ''x'' T_int [3, 4, 5] example_file = (Inr (), example_saved)"
  by (simp add: save_def example_engine_def example_file_def example_saved_def ref_eval)

lemma example_calls:
  "H5Dopen example_engine 1 (c_str ''x'') H5P_DEFAULT (example_saved\<lparr>io_fault := b\<rparr>) =
     (4, example_saved\<lparr>next_id := 5, objs := (4, DatasetObj 1 True) # objs example_saved,
           io_fault := b\<rparr>)"
  "H5Dget_type example_engine 4
     (example_saved\<lparr>next_id := 5, objs := (4, DatasetObj 1 True) # objs example_saved,
           io_fault := b\<rparr>) =
     (5, example_saved\<lparr>next_id := 6,
           objs := (5, TypeObj H5T_NATIVE_INT) # (4, DatasetObj 1 True) # objs example_saved,
           io_fault := b\<rparr>)"
  "H5Dget_space example_engine 4
     (example_saved\<lparr>next_id := 6,
           objs := (5, TypeObj H5T_NATIVE_INT) # (4, DatasetObj 1 True) # objs example_saved,
           io_fault := b\<rparr>) =
     (6, example_saved\<lparr>next_id := 7,
           objs := (6, SpaceObj [3]) # (5, TypeObj H5T_NATIVE_INT) # (4, DatasetObj 1 True)
                   # objs example_saved,
           io_fault := b\<rparr>)"
  "H5Sget_simple_extent_ndims example_engine 6
     (example_saved\<lparr>next_id := 7,
           objs := (6, SpaceObj [3]) # (5, TypeObj H5T_NATIVE_INT) # (4, DatasetObj 1 True)
                   # objs example_saved,
           io_fault := b\<rparr>) =
     (1, example_saved\<lparr>next_id := 7,
           objs := (6, SpaceObj [3]) # (5, TypeObj H5T_NATIVE_INT) # (4, DatasetObj 1 True)
                   # objs example_saved,
           io_fault := b\<rparr>)"
  "H5Sget_simple_extent_dims example_engine 6
     (example_saved\<lparr>next_id := 7,
           objs := (6, SpaceObj [3]) # (5, TypeObj H5T_NATIVE_INT) # (4, DatasetObj 1 True)
                   # objs example_saved,
           io_fault := b\<rparr>) =
     ((1, [3]), example_saved\<lparr>next_id := 7,
           objs := (6, SpaceObj [3]) # (5, TypeObj H5T_NATIVE_INT) # (4, DatasetObj 1 True)
                   # objs example_saved,
           io_fault := b\<rparr>)"
  by (simp_all add: example_engine_def example_saved_def ref_eval)

section \<open>Loading, for every engine\<close>

text \<open>
  C2, as stated, fails. The entry \<^verbatim>\<open>big\<close> exists, is one-dimensional and declares
  \<open>2 ^ 62\<close> elements, the extents are obtained and \<^verbatim>\<open>int\<close> has a tag. The vector
  cannot have that size: \<^verbatim>\<open>resize\<close> throws \<^verbatim>\<open>std::length_error\<close>, which \<open>load\<close>
  lets through. The vector is not resized to the declared count and nothing is read.
\<close>

theorem load_declared_count_counterexample:
  "lookup_dataset example_huge 1 (c_str ''big'') = Some (1, False) \<and>
   map_of (nodes example_huge) 1 = Some (Dataset H5T_NATIVE_INT [4611686018427387904] []) \<and>
   HDF5Type_type T_int = Inr H5T_NATIVE_INT \<and>
   load example_memory example_engine 1 ''big'' T_int [9] example_huge =
     (Inl LengthError, [9],
      example_huge\<lparr>next_id := 5,
        objs := (4, SpaceObj [4611686018427387904]) # (3, TypeObj H5T_NATIVE_INT)
                # (2, DatasetObj 1 False) # objs example_huge\<rparr>)"
  by (simp add: load_def resize_def first_extent_def example_memory_def example_engine_def
      example_huge_def ref_eval)

text \<open>
  C2, amended. Name the engine's answers to the calls \<open>load\<close> makes first, the open
  being asked for the name up to its first NUL. If opening the entry fails, \<open>load\<close>
  throws the OpenError. If it succeeds and the entry's dimensionality is not \<open>1\<close>,
  \<open>load\<close> throws the ShapeError ``not one-dimensional'' with the vector untouched and
  nothing read. If the dimensionality is \<open>1\<close> and the extents were obtained, then:
  when the vector cannot be resized to the declared count, the exception of the resize
  leaves \<open>load\<close> with the vector untouched and nothing read; when it can and the element
  type has a tag, the vector is resized to the declared count, the elements the engine
  reads under that tag are stored into it, its length is exactly that count, and the
  call throws the ReadError exactly when the read reports failure.
\<close>

theorem load_steps:
  assumes "H5Dopen E h (c_str name) H5P_DEFAULT s = (dataset, s1)"
    and "H5Dget_type E dataset s1 = (typeFile, s2)"
    and "H5Dget_space E dataset s2 = (filespace, s3)"
    and "H5Sget_simple_extent_ndims E filespace s3 = (dimension, s4)"
    and "H5Sget_simple_extent_dims E filespace s4 = ((status, dims), s5)"
  shows
    "(dataset < 0 \<longrightarrow>
        load M E h name T data s =
          (Inl (OpenError ''could not open HDF5 dataset.''), data, s1)) \<and>
     (0 \<le> dataset \<and> dimension \<noteq> 1 \<longrightarrow>
        load M E h name T data s =
          (Inl (ShapeError ''HDF5 dataset is not one-dimensional.''), data, s4)) \<and>
     (0 \<le> dataset \<and> dimension = 1 \<and> 0 \<le> status \<longrightarrow>
        (\<forall>e. resize M (first_extent dims) data = Inl e \<longrightarrow>
           load M E h name T data s = (Inl e, data, s5)) \<and>
        (\<forall>ty data1.
           resize M (first_extent dims) data = Inr data1 \<and> HDF5Type_type T = Inr ty \<longrightarrow>
           data1 = take (first_extent dims) data
                   @ replicate (first_extent dims - length data) 0 \<and>
           fst (snd (load M E h name T data s)) =
             store_into data1
               (snd (fst (H5Dread E dataset ty H5S_ALL H5S_ALL H5P_DEFAULT s5))) \<and>
           length (fst (snd (load M E h name T data s))) = first_extent dims \<and>
           fst (load M E h name T data s) =
             (if fst (fst (H5Dread E dataset ty H5S_ALL H5S_ALL H5P_DEFAULT s5)) < 0
              then Inl (ReadError ''could not read from HDF5 dataset 'points'.'')
              else Inr ())))"
  using assms
  by (auto simp: load_def length_store_into split: prod.splits dest: resize_Inr)

theorem load_steps_witness:
  "HDF5Type_type T_int = Inr H5T_NATIVE_INT \<and>
   resize example_memory (first_extent [3]) [9::int] = Inr [9, 0, 0] \<and>
   load example_memory example_engine 1 ''x'' T_int [9] example_saved
     = (Inr (), [3, 4, 5],
        snd (snd (load example_memory example_engine 1 ''x'' T_int [9] example_saved)))"
proof -
  have rd: "fst (H5Dread example_engine 4 H5T_NATIVE_INT H5S_ALL H5S_ALL H5P_DEFAULT
       (example_saved\<lparr>next_id := 7,
           objs := (6, SpaceObj [3]) # (5, TypeObj H5T_NATIVE_INT) # (4, DatasetObj 1 True)
                   # objs example_saved,
           io_fault := False\<rparr>)) = (0, [3, 4, 5])"
    by (simp add: example_engine_def example_saved_def ref_eval)
  have ty: "HDF5Type_type T_int = Inr H5T_NATIVE_INT" by simp
  have rs: "resize example_memory (first_extent [3]) [9::int] = Inr [9, 0, 0]"
    by (simp add: resize_def first_extent_def example_memory_def numeral_3_eq_3)
  have same: "example_saved\<lparr>io_fault := False\<rparr> = example_saved"
    by (simp add: example_saved_def)
  from load_steps[OF example_calls[of False], where T=T_int and data="[9]"
      and M=example_memory] ty rd rs same
  have "fst (snd (load example_memory example_engine 1 ''x'' T_int [9] example_saved))
          = [3, 4, 5]"
    and "fst (load example_memory example_engine 1 ''x'' T_int [9] example_saved) = Inr ()"
    by (simp_all add: store_into_def)
  then show ?thesis
    using ty rs by (simp add: prod_eq_iff)
qed

text \<open>
  C10. When \<open>load\<close> throws an OpenError or the ShapeError ``not one-dimensional'', the
  vector is as it was before the call. When it throws a ReadError, the vector has the
  length of the element count the engine declared for the entry.
\<close>

theorem load_failure_frame:
  assumes "H5Dopen E h (c_str name) H5P_DEFAULT s = (dataset, s1)"
    and "H5Dget_type E dataset s1 = (typeFile, s2)"
    and "H5Dget_space E dataset s2 = (filespace, s3)"
    and "H5Sget_simple_extent_ndims E filespace s3 = (dimension, s4)"
    and "H5Sget_simple_extent_dims E filespace s4 = ((status, dims), s5)"
  shows
    "(\<forall>msg. fst (load M E h name T data s) = Inl (OpenError msg) \<longrightarrow>
        fst (snd (load M E h name T data s)) = data) \<and>
     (fst (load M E h name T data s)
        = Inl (ShapeError ''HDF5 dataset is not one-dimensional.'') \<longrightarrow>
        fst (snd (load M E h name T data s)) = data) \<and>
     (\<forall>msg. fst (load M E h name T data s) = Inl (ReadError msg) \<longrightarrow>
        length (fst (snd (load M E h name T data s))) = first_extent dims)"
  using assms
  by (auto simp: load_def Let_def length_store_into
      split: prod.splits sum.splits if_splits
      dest: HDF5Type_type_error resize_Inr resize_Inl)

theorem load_failure_frame_witness:
  "fst (load example_memory example_engine 1 ''x'' T_int [9]
          (example_saved\<lparr>io_fault := True\<rparr>))
     = Inl (ReadError ''could not read from HDF5 dataset 'points'.'') \<and>
   length (fst (snd (load example_memory example_engine 1 ''x'' T_int [9]
                       (example_saved\<lparr>io_fault := True\<rparr>))))
     = 3"
proof -
  have r: "fst (load example_memory example_engine 1 ''x'' T_int [9]
                  (example_saved\<lparr>io_fault := True\<rparr>))
     = Inl (ReadError ''could not read from HDF5 dataset 'points'.'')"
    by (simp add: load_def resize_def first_extent_def example_memory_def
        example_engine_def example_saved_def ref_eval)
  from load_failure_frame[OF example_calls[of True], where T=T_int and data="[9]"
      and M=example_memory] r
  show ?thesis by (simp add: first_extent_def)
qed

section \<open>Properties on the reference engine\<close>

subsection \<open>Well-formed states\<close>

lemma wf_iff:
  "wf s \<longleftrightarrow>
     0 < next_id s \<and> (\<forall>k \<in> fst ` set (objs s). 0 < k \<and> k < next_id s) \<and>
     (\<forall>k \<in> fst ` set (nodes s). k < next_node s)"
  by (auto simp: wf_def list_all_iff)

lemma wf_fresh_id: "wf s \<Longrightarrow> next_id s \<le> k \<Longrightarrow> map_of (objs s) k = None"
  by (force simp: wf_def list_all_iff map_of_eq_None_iff)

lemma wf_fresh_node: "wf s \<Longrightarrow> next_node s \<le> k \<Longrightarrow> map_of (nodes s) k = None"
  by (force simp: wf_def list_all_iff map_of_eq_None_iff)

lemma wf_id_bound: "wf s \<Longrightarrow> map_of (objs s) k = Some x \<Longrightarrow> 0 < k \<and> k < next_id s"
  by (auto simp: wf_def list_all_iff dest!: map_of_SomeD)

lemma wf_node_bound: "wf s \<Longrightarrow> map_of (nodes s) k = Some x \<Longrightarrow> k < next_node s"
  by (auto simp: wf_def list_all_iff dest!: map_of_SomeD)

lemma can_create_SomeD:
  "can_create s h name = Some (n, ls) \<Longrightarrow>
     location s h = Some (n, True) \<and> links s n = Some ls \<and> name \<noteq> [] \<and> map_of ls name = None"
  by (auto simp: can_create_def split: option.splits if_splits)

lemma location_SomeD: "location s h = Some (n, w) \<Longrightarrow> \<exists>x. map_of (objs s) h = Some x"
  by (auto simp: location_def split: option.splits obj.splits)

lemma links_SomeD: "links s n = Some ls \<Longrightarrow> map_of (nodes s) n = Some (Group ls)"
  by (auto simp: links_def split: option.splits node.splits)

text \<open>
  The empty state is well-formed, and every call of the reference engine keeps a state
  well-formed.
\<close>

lemma wf_empty_state: "wf empty_state"
  by (simp add: wf_def empty_state_def)

lemma wf_alloc: "wf s \<Longrightarrow> wf (snd (alloc x s))"
  by (auto simp: wf_iff alloc_def)

lemma wf_release: "wf s \<Longrightarrow> wf (snd (release i s))"
  by (auto simp: wf_iff release_def AList.delete_eq)

lemma update_key_cases:
  assumes "(a, b) \<in> set (AList.update k v al)"
  shows "a = k \<or> (\<exists>c. (a, c) \<in> set al)"
proof -
  from assms have "a \<in> fst ` set (AList.update k v al)" by force
  then show ?thesis by (auto simp: dom_update)
qed

lemma wf_objs_update:
  assumes "wf s" and "map_of (objs s) p = Some x"
  shows "wf (s\<lparr>objs := AList.update p y (objs s)\<rparr>)"
proof -
  from assms(2) have "p \<in> fst ` set (objs s)"
    by (metis map_of_eq_None_iff option.distinct(1))
  then have "fst ` set (AList.update p y (objs s)) = fst ` set (objs s)"
    by (auto simp: dom_update)
  with assms(1) show ?thesis
    unfolding wf_iff by simp
qed

lemma wf_ref_engine:
  assumes "wf s"
  shows "wf (snd (r_H5Pcreate cls s))"
    and "wf (snd (r_H5Pset_libver_bounds p lo hi s))"
    and "wf (snd (r_H5Fcreate name flags fcpl fapl s))"
    and "wf (snd (r_H5Fopen name flags fapl s))"
    and "wf (snd (r_H5Fclose i s))"
    and "wf (snd (r_H5Gcreate h name a b c s))"
    and "wf (snd (r_H5Gopen h name a s))"
    and "wf (snd (r_H5Gclose i s))"
    and "wf (snd (r_H5Screate_simple rank dims s))"
    and "wf (snd (r_H5Sclose i s))"
    and "wf (snd (r_H5Dcreate h name ty i a b c s))"
    and "wf (snd (r_H5Dopen h name a s))"
    and "wf (snd (r_H5Dwrite conv i ty a b c buf s))"
    and "wf (snd (r_H5Dread conv i ty a b c s))"
    and "wf (snd (r_H5Dclose i s))"
    and "wf (snd (r_H5Dget_type i s))"
    and "wf (snd (r_H5Dget_space i s))"
    and "wf (snd (r_H5Tclose i s))"
    and "wf (snd (r_H5Sget_simple_extent_ndims i s))"
    and "wf (snd (r_H5Sget_simple_extent_dims i s))"
proof -
  show "wf (snd (r_H5Pcreate cls s))" using assms by (simp add: r_H5Pcreate_def wf_alloc)
  show "wf (snd (r_H5Pset_libver_bounds p lo hi s))"
    using assms
    by (auto simp: r_H5Pset_libver_bounds_def wf_objs_update split: option.splits obj.splits)
  show "wf (snd (r_H5Fcreate name flags fcpl fapl s))"
    using assms by (auto simp: r_H5Fcreate_def alloc_def Let_def wf_iff)
  show "wf (snd (r_H5Fopen name flags fapl s))"
    using assms by (auto simp: r_H5Fopen_def alloc_def wf_iff split: option.splits)
  show "wf (snd (r_H5Fclose i s))"
    using assms by (auto simp: r_H5Fclose_def wf_release split: option.splits obj.splits)
  show "wf (snd (r_H5Gclose i s))"
    using assms by (auto simp: r_H5Gclose_def wf_release split: option.splits obj.splits)
  show "wf (snd (r_H5Sclose i s))"
    using assms by (auto simp: r_H5Sclose_def wf_release split: option.splits obj.splits)
  show "wf (snd (r_H5Dclose i s))"
    using assms by (auto simp: r_H5Dclose_def wf_release split: option.splits obj.splits)
  show "wf (snd (r_H5Tclose i s))"
    using assms by (auto simp: r_H5Tclose_def wf_release split: option.splits obj.splits)
  show "wf (snd (r_H5Gcreate h name a b c s))"
    using assms
    by (auto simp: r_H5Gcreate_def alloc_def Let_def wf_iff
        split: option.splits dest!: can_create_SomeD links_SomeD map_of_SomeD update_key_cases)
  show "wf (snd (r_H5Gopen h name a s))"
    using assms by (auto simp: r_H5Gopen_def wf_alloc split: option.splits)
  show "wf (snd (r_H5Screate_simple rank dims s))"
    using assms by (simp add: r_H5Screate_simple_def wf_alloc)
  show "wf (snd (r_H5Dcreate h name ty i a b c s))"
    using assms
    by (auto simp: r_H5Dcreate_def alloc_def Let_def wf_iff
        split: option.splits obj.splits
        dest!: can_create_SomeD links_SomeD map_of_SomeD update_key_cases)
  show "wf (snd (r_H5Dopen h name a s))"
    using assms by (auto simp: r_H5Dopen_def wf_alloc split: option.splits)
  show "wf (snd (r_H5Dwrite conv i ty a b c buf s))"
    using assms
    by (auto simp: r_H5Dwrite_def wf_iff
        split: option.splits obj.splits node.splits dest!: map_of_SomeD update_key_cases)
  show "wf (snd (r_H5Dread conv i ty a b c s))"
    using assms by (simp add: r_H5Dread_def split: option.splits obj.splits node.splits)
  show "wf (snd (r_H5Dget_type i s))"
    using assms
    by (auto simp: r_H5Dget_type_def wf_alloc split: option.splits obj.splits node.splits)
  show "wf (snd (r_H5Dget_space i s))"
    using assms
    by (auto simp: r_H5Dget_space_def wf_alloc split: option.splits obj.splits node.splits)
  show "wf (snd (r_H5Sget_simple_extent_ndims i s))"
    using assms
    by (simp add: r_H5Sget_simple_extent_ndims_def split: option.splits obj.splits)
  show "wf (snd (r_H5Sget_simple_extent_dims i s))"
    using assms
    by (simp add: r_H5Sget_simple_extent_dims_def split: option.splits obj.splits)
qed

subsection \<open>What a successful save and a load of a one-dimensional entry do\<close>

lemma save_ref_success:
  assumes "wf s" and "can_create s h (c_str name) = Some (n, ls)"
    and "HDF5Type_type T = Inr ty" and "\<not> io_fault s"
  shows "save (ref_engine conv) h name T v s =
    (Inr (),
     s\<lparr>next_id := next_id s + 2,
       objs := (next_id s + 1, DatasetObj (next_node s) True)
               # (next_id s, SpaceObj [length v]) # objs s,
       next_node := next_node s + 1,
       nodes := (next_node s, Dataset ty [length v] v)
                # AList.update n (Group ((c_str name, next_node s) # ls)) (nodes s)\<rparr>)"
proof -
  from assms(2) have loc: "location s h = Some (n, True)" and lk: "links s n = Some ls"
    and nm: "c_str name \<noteq> []" "map_of ls (c_str name) = None"
    using can_create_SomeD by blast+
  from loc obtain x where "map_of (objs s) h = Some x" using location_SomeD by blast
  with assms(1) have hb: "h < next_id s" using wf_id_bound by blast
  from assms(1) have pos: "0 < next_id s" by (simp add: wf_def)
  define s1 where "s1 = s\<lparr>next_id := next_id s + 1,
    objs := (next_id s, SpaceObj [length v]) # objs s\<rparr>"
  have sp: "r_H5Screate_simple 1 [length v] s = (next_id s, s1)"
    by (simp add: r_H5Screate_simple_def alloc_def s1_def)
  have loc1: "location s1 h = Some (n, True)"
    using loc hb by (simp add: location_def s1_def)
  have cc: "can_create s1 h (c_str name) = Some (n, ls)"
    using loc1 lk nm by (simp add: can_create_def) (simp add: links_def s1_def)
  define s2 where "s2 = s\<lparr>next_id := next_id s + 2,
       objs := (next_id s + 1, DatasetObj (next_node s) True)
               # (next_id s, SpaceObj [length v]) # objs s,
       next_node := next_node s + 1,
       nodes := (next_node s, Dataset ty [length v] (replicate (length v) 0))
                # AList.update n (Group ((c_str name, next_node s) # ls)) (nodes s)\<rparr>"
  have dc: "r_H5Dcreate h (c_str name) ty (next_id s) H5P_DEFAULT H5P_DEFAULT H5P_DEFAULT s1
              = (next_id s + 1, s2)"
    using cc by (simp add: r_H5Dcreate_def) (simp add: alloc_def Let_def s1_def s2_def)
  define s3 where "s3 = s\<lparr>next_id := next_id s + 2,
       objs := (next_id s + 1, DatasetObj (next_node s) True)
               # (next_id s, SpaceObj [length v]) # objs s,
       next_node := next_node s + 1,
       nodes := (next_node s, Dataset ty [length v] v)
                # AList.update n (Group ((c_str name, next_node s) # ls)) (nodes s)\<rparr>"
  have dw: "r_H5Dwrite conv (next_id s + 1) ty H5S_ALL H5S_ALL H5P_DEFAULT v s2 = (0, s3)"
    using assms(4) by (simp add: r_H5Dwrite_def convert_same Let_def s2_def s3_def)
  have "save (ref_engine conv) h name T v s = (Inr (), s3)"
    using pos by (simp add: save_def ref_engine_fields sp assms(3) dc dw)
  then show ?thesis by (simp add: s3_def)
qed

lemma load_ref_one_dimensional:
  assumes "wf s" and "lookup_dataset s h (c_str name) = Some (m, w)"
    and "map_of (nodes s) m = Some (Dataset ty0 [k] xs)"
    and "HDF5Type_type T = Inr ty" and "resize M k out = Inr out1"
  shows "load M (ref_engine conv) h name T out s =
    (if io_fault s then Inl (ReadError ''could not read from HDF5 dataset 'points'.'')
     else Inr (),
     store_into out1 (if io_fault s then [] else map (convert conv ty0 ty) xs),
     s\<lparr>next_id := next_id s + 3\<rparr>)"
proof -
  from assms(1) have pos: "0 < next_id s" by (simp add: wf_def)
  have nin: "next_id s \<notin> fst ` set (objs s)" "next_id s + 1 \<notin> fst ` set (objs s)"
    "next_id s + 2 \<notin> fst ` set (objs s)"
    using assms(1) by (simp_all add: wf_fresh_id flip: map_of_eq_None_iff)
  define i where "i = next_id s"
  have ipos: "0 < i" using pos by (simp add: i_def)
  define s1 where "s1 = s\<lparr>next_id := i + 1, objs := (i, DatasetObj m w) # objs s\<rparr>"
  have op: "r_H5Dopen h (c_str name) H5P_DEFAULT s = (i, s1)"
    using assms(2) by (simp add: r_H5Dopen_def alloc_def s1_def i_def)
  define s2 where
    "s2 = s\<lparr>next_id := i + 2, objs := (i + 1, TypeObj ty0) # (i, DatasetObj m w) # objs s\<rparr>"
  have gt: "r_H5Dget_type i s1 = (i + 1, s2)"
    using assms(3) by (simp add: r_H5Dget_type_def alloc_def s1_def s2_def)
  define s3 where "s3 = s\<lparr>next_id := i + 3,
     objs := (i + 2, SpaceObj [k]) # (i + 1, TypeObj ty0) # (i, DatasetObj m w) # objs s\<rparr>"
  have gs: "r_H5Dget_space i s2 = (i + 2, s3)"
    using assms(3) by (simp add: r_H5Dget_space_def alloc_def s2_def s3_def)
  have nd: "r_H5Sget_simple_extent_ndims (i + 2) s3 = (1, s3)"
    by (simp add: r_H5Sget_simple_extent_ndims_def s3_def)
  have ds: "r_H5Sget_simple_extent_dims (i + 2) s3 = ((1, [k]), s3)"
    by (simp add: r_H5Sget_simple_extent_dims_def s3_def)
  have rd: "r_H5Dread conv i ty H5S_ALL H5S_ALL H5P_DEFAULT s3 =
      (if io_fault s then ((- 1, []), s3) else ((0, map (convert conv ty0 ty) xs), s3))"
    using assms(3) by (simp add: r_H5Dread_def s3_def)
  define s4 where "s4 = s\<lparr>next_id := i + 3,
     objs := (i + 2, SpaceObj [k]) # (i + 1, TypeObj ty0) # objs s\<rparr>"
  have c1: "r_H5Dclose i s3 = (0, s4)"
    using nin by (simp add: r_H5Dclose_def release_def s3_def s4_def i_def)
  define s5 where "s5 = s\<lparr>next_id := i + 3, objs := (i + 2, SpaceObj [k]) # objs s\<rparr>"
  have c2: "r_H5Tclose (i + 1) s4 = (0, s5)"
    using nin by (simp add: r_H5Tclose_def release_def s4_def s5_def i_def)
  define s6 where "s6 = s\<lparr>next_id := i + 3\<rparr>"
  have c3: "r_H5Sclose (i + 2) s5 = (0, s6)"
    using nin by (simp add: r_H5Sclose_def release_def s5_def s6_def i_def)
  have "load M (ref_engine conv) h name T out s =
    (if io_fault s then Inl (ReadError ''could not read from HDF5 dataset 'points'.'')
     else Inr (),
     store_into out1 (if io_fault s then [] else map (convert conv ty0 ty) xs), s6)"
  proof (cases "io_fault s")
    case True
    with rd have "r_H5Dread conv i ty H5S_ALL H5S_ALL H5P_DEFAULT s3 = ((- 1, []), s3)"
      by simp
    then show ?thesis
      using ipos True
      by (simp add: load_def ref_engine_fields op gt gs nd ds c1 c2 c3 assms(4,5)
          first_extent_def)
  next
    case False
    with rd have "r_H5Dread conv i ty H5S_ALL H5S_ALL H5P_DEFAULT s3 =
        ((0, map (convert conv ty0 ty) xs), s3)"
      by simp
    then show ?thesis
      using ipos False
      by (simp add: load_def ref_engine_fields op gt gs nd ds c1 c2 c3 assms(4,5)
          first_extent_def)
  qed
  then show ?thesis by (simp add: s6_def i_def)
qed

lemma load_ref_success:
  assumes "wf s" and "lookup_dataset s h (c_str name) = Some (m, w)"
    and "map_of (nodes s) m = Some (Dataset ty0 [k] xs)" and "length xs = k"
    and "HDF5Type_type T = Inr ty" and "\<not> io_fault s" and "resize M k out = Inr out1"
  shows "load M (ref_engine conv) h name T out s =
    (Inr (), map (convert conv ty0 ty) xs, s\<lparr>next_id := next_id s + 3\<rparr>)"
proof -
  from assms(7) have "length out1 = k" by (simp add: resize_Inr)
  with load_ref_one_dimensional[OF assms(1,2,3,5,7)] assms(4,6) show ?thesis
    by (simp add: store_into_exact)
qed

subsection \<open>Round trip\<close>

text \<open>
  C1, as stated, fails. \<^verbatim>\<open>signed char\<close> is one of the element types the
  specification lists as supported. On the new container, with the name \<^verbatim>\<open>x\<close> free
  and the medium working, \<open>save\<close> of a vector of \<^verbatim>\<open>signed char\<close> throws the
  ConfigurationError: nothing is stored that a \<open>load\<close> could return.
\<close>

theorem roundtrip_signed_char_counterexample:
  "spec_supported T_signed_char \<and> wf example_file \<and>
   can_create example_file 1 (c_str ''x'') = Some (0, []) \<and> \<not> io_fault example_file \<and>
   fst (save example_engine 1 ''x'' T_signed_char [3, 4, 5] example_file) =
     Inl (ConfigurationError ''conversion of this type to HDF5 type not implemented.'') \<and>
   lookup_dataset
     (snd (save example_engine 1 ''x'' T_signed_char [3, 4, 5] example_file)) 1 (c_str ''x'')
     = None"
  by (simp add: spec_supported_def wf_def save_def example_engine_def example_file_def
      ref_eval)

text \<open>For every engine, \<open>save\<close> of an element type without a tag does not succeed.\<close>

lemma save_unmapped_type_fails:
  assumes "HDF5Type_type T = Inl e"
  shows "fst (save E h name T v s) \<noteq> Inr ()"
  using assms by (auto simp: save_def Let_def split: prod.splits)

text \<open>
  C1, amended. On a well-formed state whose medium works, let \<open>h\<close> be an open file or
  group of a container opened for writing, let the name, read up to its first NUL, be
  non-empty and not yet used under \<open>h\<close>, and let \<open>T\<close> be an element type with a tag (one
  of the thirteen with a specialisation). Then for every vector \<open>v\<close>, the empty one
  included, \<open>save\<close> succeeds, and a \<open>load\<close> of the same name into a vector that can be
  resized to the length of \<open>v\<close> succeeds and leaves exactly \<open>v\<close> in it: the same
  elements, hence the same length.
\<close>

theorem save_load_roundtrip:
  assumes "wf s" and "can_create s h (c_str name) \<noteq> None"
    and "HDF5Type_type T = Inr ty" and "\<not> io_fault s"
    and "resize M (length v) out = Inr out1"
  shows "\<exists>s1 s2. save (ref_engine conv) h name T v s = (Inr (), s1) \<and>
     load M (ref_engine conv) h name T out s1 = (Inr (), v, s2)"
proof -
  from assms(2) obtain n ls where cc: "can_create s h (c_str name) = Some (n, ls)" by auto
  define s1 where "s1 = s\<lparr>next_id := next_id s + 2,
       objs := (next_id s + 1, DatasetObj (next_node s) True)
               # (next_id s, SpaceObj [length v]) # objs s,
       next_node := next_node s + 1,
       nodes := (next_node s, Dataset ty [length v] v)
                # AList.update n (Group ((c_str name, next_node s) # ls)) (nodes s)\<rparr>"
  have sv: "save (ref_engine conv) h name T v s = (Inr (), s1)"
    using save_ref_success[OF assms(1) cc assms(3,4)] by (simp add: s1_def)
  from cc have loc: "location s h = Some (n, True)" and lk: "links s n = Some ls"
    using can_create_SomeD by blast+
  from loc obtain x where "map_of (objs s) h = Some x" using location_SomeD by blast
  with assms(1) have hb: "h < next_id s" using wf_id_bound by blast
  from lk have "map_of (nodes s) n = Some (Group ls)" by (rule links_SomeD)
  with assms(1) have nb: "n < next_node s" using wf_node_bound by blast
  have wf1: "wf s1"
    using assms(1) nb by (auto simp: wf_iff dom_update s1_def)
  have loc1: "location s1 h = Some (n, True)"
    using loc hb by (simp add: location_def s1_def)
  have lk1: "links s1 n = Some ((c_str name, next_node s) # ls)"
    using nb by (simp add: links_def update_conv' s1_def)
  have ld: "lookup_dataset s1 h (c_str name) = Some (next_node s, True)"
    using loc1 lk1 by (simp add: lookup_dataset_def lookup_def) (simp add: s1_def)
  have nd: "map_of (nodes s1) (next_node s) = Some (Dataset ty [length v] v)"
    by (simp add: s1_def)
  have "load M (ref_engine conv) h name T out s1 =
     (Inr (), map (convert conv ty ty) v, s1\<lparr>next_id := next_id s1 + 3\<rparr>)"
    by (rule load_ref_success[OF wf1 ld nd _ assms(3) _ assms(5)])
      (use assms(4) in \<open>simp_all add: s1_def\<close>)
  then show ?thesis
    using sv by (simp add: convert_same)
qed

theorem save_load_roundtrip_witness:
  "wf example_file \<and> can_create example_file 1 (c_str ''x'') \<noteq> None \<and>
   HDF5Type_type T_int = Inr H5T_NATIVE_INT \<and> \<not> io_fault example_file \<and>
   resize example_memory (length [3, 4, 5 :: int]) [9 :: int] = Inr [9, 0, 0] \<and>
   (\<exists>s1 s2. save example_engine 1 ''x'' T_int [3, 4, 5] example_file = (Inr (), s1) \<and>
      load example_memory example_engine 1 ''x'' T_int [9] s1 = (Inr (), [3, 4, 5], s2))"
proof -
  have a: "wf example_file" by (simp add: wf_def example_file_def)
  have b: "can_create example_file 1 (c_str ''x'') \<noteq> None"
    by (simp add: example_file_def can_create_def location_def links_def c_str_def)
  have c: "HDF5Type_type T_int = Inr H5T_NATIVE_INT" by simp
  have d: "\<not> io_fault example_file" by (simp add: example_file_def)
  have e: "resize example_memory (length [3, 4, 5 :: int]) [9 :: int] = Inr [9, 0, 0]"
    by (simp add: resize_def example_memory_def numeral_3_eq_3)
  from save_load_roundtrip[OF a b c d e] a b c d e show ?thesis
    by (simp add: example_engine_def)
qed

subsection \<open>A missing entry\<close>

text \<open>
  C8. The engine is asked for the name up to its first NUL. When that name denotes no
  array entry under \<open>h\<close>, \<open>load\<close> throws the OpenError, the vector is untouched, and
  the engine state is the one before the call: \<open>h\<close> is as valid and as usable as it
  was.
\<close>

theorem load_missing_entry:
  assumes "lookup_dataset s h (c_str name) = None"
  shows "load M (ref_engine conv) h name T out s =
           (Inl (OpenError ''could not open HDF5 dataset.''), out, s)"
  using assms by (simp add: load_def ref_engine_fields r_H5Dopen_def)

theorem load_missing_entry_witness:
  "location example_saved 1 = Some (0, True) \<and>
   lookup_dataset example_saved 1 (c_str ''nonexistent'') = None \<and>
   load example_memory example_engine 1 ''nonexistent'' T_int [9] example_saved =
     (Inl (OpenError ''could not open HDF5 dataset.''), [9], example_saved)"
proof -
  have a: "lookup_dataset example_saved 1 (c_str ''nonexistent'') = None"
    by (simp add: example_saved_def ref_eval)
  have b: "location example_saved 1 = Some (0, True)"
    by (simp add: example_saved_def ref_eval)
  from load_missing_entry[OF a] a b show ?thesis
    by (simp add: example_engine_def)
qed

text \<open>
  A name with a NUL inside is the name before the NUL to the engine: no entry is called
  \<^verbatim>\<open>x\<close>, NUL, \<^verbatim>\<open>j\<close>, and a \<open>load\<close> of that name loads the entry \<^verbatim>\<open>x\<close>.
\<close>

lemma load_name_with_nul:
  "lookup_dataset example_saved 1 (''x'' @ CHR 0x00 # ''j'') = None \<and>
   c_str (''x'' @ CHR 0x00 # ''j'') = ''x'' \<and>
   load example_memory example_engine 1 (''x'' @ CHR 0x00 # ''j'') T_int [9] example_saved =
     (Inr (), [3, 4, 5], example_saved\<lparr>next_id := 7\<rparr>)"
  by (simp add: load_def resize_def first_extent_def store_into_def example_memory_def
      example_engine_def example_saved_def ref_eval)

subsection \<open>Saving into a container opened read-only\<close>

lemma openFile_read_only_handle:
  assumes "openFile (ref_engine conv) filename READ_ONLY ver s0 = (Inr h, s1)"
  shows "\<exists>r. map_of (objs s1) h = Some (FileObj r False)"
  using assms
  by (auto simp: openFile_def ref_engine_fields r_H5Fopen_def alloc_def
      Let_def split: prod.splits option.splits if_splits)

lemma save_read_only:
  assumes "wf s" and "map_of (objs s) h = Some (FileObj r False)"
  shows "fst (save (ref_engine conv) h name T v s) =
     Inl (case HDF5Type_type T of Inl e \<Rightarrow> e
          | Inr _ \<Rightarrow> CreationError ''could not create HDF5 dataset.'')"
proof -
  from assms have hb: "h < next_id s" using wf_id_bound by blast
  from assms(1) have pos: "0 < next_id s" by (simp add: wf_def)
  define s1 where "s1 = s\<lparr>next_id := next_id s + 1,
    objs := (next_id s, SpaceObj [length v]) # objs s\<rparr>"
  have sp: "r_H5Screate_simple 1 [length v] s = (next_id s, s1)"
    by (simp add: r_H5Screate_simple_def alloc_def s1_def)
  have "location s1 h = Some (r, False)"
    using assms(2) hb by (simp add: location_def s1_def)
  then have cc: "can_create s1 h nm = None" for nm
    by (simp add: can_create_def split: option.splits)
  have dc: "r_H5Dcreate h nm ty (next_id s) H5P_DEFAULT H5P_DEFAULT H5P_DEFAULT s1 = (- 1, s1)"
    for ty nm
    using cc by (simp add: r_H5Dcreate_def)
  show ?thesis
    using pos by (simp add: save_def ref_engine_fields sp dc split: sum.splits prod.splits)
qed

text \<open>
  C9. Let \<open>h\<close> be the handle \<open>openFile\<close> returned for a container opened \<open>READ_ONLY\<close>.
  In every later well-formed state in which \<open>h\<close> is still that descriptor, \<open>save\<close> into
  \<open>h\<close> never succeeds: the engine refuses to create the entry and \<open>save\<close> throws the
  CreationError. (For an element type without a tag the ConfigurationError of the type
  mapping comes first.)
\<close>

theorem save_on_read_only_fails:
  assumes "openFile (ref_engine conv) filename READ_ONLY ver s0 = (Inr h, s1)"
    and "wf s" and "map_of (objs s) h = map_of (objs s1) h"
  shows "fst (save (ref_engine conv) h name T v s) =
     Inl (case HDF5Type_type T of Inl e \<Rightarrow> e
          | Inr _ \<Rightarrow> CreationError ''could not create HDF5 dataset.'')"
proof -
  from assms(1) obtain r where "map_of (objs s1) h = Some (FileObj r False)"
    using openFile_read_only_handle by blast
  with assms(3) have "map_of (objs s) h = Some (FileObj r False)" by simp
  with assms(2) show ?thesis by (rule save_read_only)
qed

theorem save_on_read_only_fails_witness:
  "openFile example_engine ''f.h5'' READ_ONLY HDF5_VERSION_DEFAULT example_closed
     = (Inr 4, example_readonly) \<and>
   wf example_readonly \<and>
   fst (save example_engine 4 ''y'' T_int [7] example_readonly) =
     Inl (CreationError ''could not create HDF5 dataset.'')"
proof -
  have a: "openFile (ref_engine (\<lambda>_ _ x. x)) ''f.h5'' READ_ONLY HDF5_VERSION_DEFAULT example_closed
     = (Inr 4, example_readonly)"
    by (simp add: openFile_def example_closed_def example_readonly_def
        ref_eval)
  have b: "wf example_readonly"
    by (simp add: wf_def example_readonly_def example_closed_def)
  from save_on_read_only_fails[OF a b refl, of "''y''" T_int "[7]"] a b
  show ?thesis by (simp add: example_engine_def)
qed

section \<open>Descriptors that stay open\<close>

text \<open>
  On the reference engine, a \<open>load\<close> of an entry whose shape has not exactly one
  dimension throws the ShapeError with the vector untouched, and the three descriptors
  it opened stay open.
\<close>

lemma load_ref_not_one_dimensional:
  assumes "wf s" and "lookup_dataset s h (c_str name) = Some (m, w)"
    and "map_of (nodes s) m = Some (Dataset ty0 dims xs)" and "length dims \<noteq> 1"
  shows "load M (ref_engine conv) h name T out s =
    (Inl (ShapeError ''HDF5 dataset is not one-dimensional.''), out,
     s\<lparr>next_id := next_id s + 3,
       objs := (next_id s + 2, SpaceObj dims) # (next_id s + 1, TypeObj ty0)
               # (next_id s, DatasetObj m w) # objs s\<rparr>)"
proof -
  from assms(1) have pos: "0 < next_id s" by (simp add: wf_def)
  define i where "i = next_id s"
  have ipos: "0 < i" using pos by (simp add: i_def)
  define s1 where "s1 = s\<lparr>next_id := i + 1, objs := (i, DatasetObj m w) # objs s\<rparr>"
  have op: "r_H5Dopen h (c_str name) H5P_DEFAULT s = (i, s1)"
    using assms(2) by (simp add: r_H5Dopen_def alloc_def s1_def i_def)
  define s2 where
    "s2 = s\<lparr>next_id := i + 2, objs := (i + 1, TypeObj ty0) # (i, DatasetObj m w) # objs s\<rparr>"
  have gt: "r_H5Dget_type i s1 = (i + 1, s2)"
    using assms(3) by (simp add: r_H5Dget_type_def alloc_def s1_def s2_def)
  define s3 where "s3 = s\<lparr>next_id := i + 3,
     objs := (i + 2, SpaceObj dims) # (i + 1, TypeObj ty0) # (i, DatasetObj m w) # objs s\<rparr>"
  have gs: "r_H5Dget_space i s2 = (i + 2, s3)"
    using assms(3) by (simp add: r_H5Dget_space_def alloc_def s2_def s3_def)
  have nd: "r_H5Sget_simple_extent_ndims (i + 2) s3 = (int (length dims), s3)"
    by (simp add: r_H5Sget_simple_extent_ndims_def s3_def)
  have "load M (ref_engine conv) h name T out s =
    (Inl (ShapeError ''HDF5 dataset is not one-dimensional.''), out, s3)"
    using ipos assms(4) by (simp add: load_def ref_engine_fields op gt gs nd)
  then show ?thesis by (simp add: s3_def i_def)
qed

text \<open>
  Two failure paths of \<open>save\<close> close what they opened, on the reference engine: when
  the entry cannot be created and when the write fails, the open descriptors are those
  from before the call. So do the success and the ReadError path of \<open>load\<close>
  (\<open>load_ref_one_dimensional\<close>).
\<close>

lemma r_H5Dcreate_cases:
  assumes "r_H5Dcreate h name ty sp a b c s = (d, s')"
  shows "d = - 1 \<and> s' = s \<or>
         d = next_id s \<and> objs s' = (next_id s, DatasetObj (next_node s) True) # objs s"
  using assms
  by (auto simp: r_H5Dcreate_def alloc_def Let_def split: option.splits obj.splits)

lemma r_H5Dwrite_objs: "objs (snd (r_H5Dwrite conv d ty a b c buf s)) = objs s"
  by (simp add: r_H5Dwrite_def split: option.splits obj.splits node.splits)

lemma save_failures_release:
  assumes "wf s" and "HDF5Type_type T = Inr ty"
    and "fst (save (ref_engine conv) h name T v s) = Inl e"
  shows "objs (snd (save (ref_engine conv) h name T v s)) = objs s"
proof -
  have nin: "next_id s \<notin> fst ` set (objs s)" "next_id s + 1 \<notin> fst ` set (objs s)"
    using assms(1) by (simp_all add: wf_fresh_id flip: map_of_eq_None_iff)
  from assms(1) have pos: "0 < next_id s" by (simp add: wf_def)
  define i where "i = next_id s"
  define s1 where "s1 = s\<lparr>next_id := i + 1, objs := (i, SpaceObj [length v]) # objs s\<rparr>"
  have sp: "r_H5Screate_simple 1 [length v] s = (i, s1)"
    by (simp add: r_H5Screate_simple_def alloc_def s1_def i_def)
  obtain d s2 where dc:
    "r_H5Dcreate h (c_str name) ty i H5P_DEFAULT H5P_DEFAULT H5P_DEFAULT s1 = (d, s2)"
    by force
  obtain st s3 where dw: "r_H5Dwrite conv d ty H5S_ALL H5S_ALL H5P_DEFAULT v s2 = (st, s3)"
    by force
  have ipos: "0 < i" using pos by (simp add: i_def)
  from r_H5Dcreate_cases[OF dc]
  consider (failed) "d = - 1" "s2 = s1"
    | (created) "d = i + 1" "objs s2 = (i + 1, DatasetObj (next_node s1) True) # objs s1"
    by (auto simp: s1_def)
  then show ?thesis
  proof cases
    case failed
    have "r_H5Sclose i s1 = (0, s1\<lparr>objs := objs s\<rparr>)"
      using nin by (simp add: r_H5Sclose_def release_def s1_def i_def)
    then show ?thesis
      using ipos failed by (simp add: save_def ref_engine_fields sp assms(2) dc)
  next
    case created
    from dw r_H5Dwrite_objs[of conv d ty H5S_ALL H5S_ALL H5P_DEFAULT v s2]
    have o3: "objs s3 = (i + 1, DatasetObj (next_node s1) True) # (i, SpaceObj [length v]) # objs s"
      using created by (simp add: s1_def)
    have sv: "save (ref_engine conv) h name T v s =
        (if st < 0
         then (let (_, s4) = r_H5Dclose d s3; (_, s5) = r_H5Sclose i s4
               in (Inl (WriteError ''could not write to HDF5 dataset.''), s5))
         else (Inr (), s3))"
      using ipos dc dw unfolding created(1)
      by (simp add: save_def ref_engine_fields sp assms(2) created(1))
    with assms(3) have neg: "st < 0" by (auto split: if_splits)
    have c1: "r_H5Dclose d s3 = (0, s3\<lparr>objs := (i, SpaceObj [length v]) # objs s\<rparr>)"
      using nin o3 created by (simp add: r_H5Dclose_def release_def i_def)
    have c2: "r_H5Sclose i (s3\<lparr>objs := (i, SpaceObj [length v]) # objs s\<rparr>)
                = (0, s3\<lparr>objs := objs s\<rparr>)"
      using nin by (simp add: r_H5Sclose_def release_def i_def)
    show ?thesis
      using neg by (simp add: sv c1 c2)
  qed
qed

text \<open>
  For every engine: when the element type has no tag, \<open>save\<close> returns the state right
  after the shape was created, and when \<open>save\<close> succeeds it returns the state right
  after the write. No closing call follows in either case.
\<close>

lemma save_unmapped_type_state:
  assumes "HDF5Type_type T = Inl e" and "0 \<le> fst (H5Screate_simple E 1 [length v] s)"
  shows "save E h name T v s = (Inl e, snd (H5Screate_simple E 1 [length v] s))"
  using assms by (auto simp: save_def split: prod.splits)

lemma save_success_state:
  assumes "H5Screate_simple E 1 [length v] s = (dataspace, s1)"
    and "HDF5Type_type T = Inr ty"
    and "H5Dcreate E h (c_str name) ty dataspace H5P_DEFAULT H5P_DEFAULT H5P_DEFAULT s1
           = (dataset, s2)"
    and "fst (save E h name T v s) = Inr ()"
  shows "snd (save E h name T v s) =
           snd (H5Dwrite E dataset ty H5S_ALL H5S_ALL H5P_DEFAULT v s2)"
  using assms by (auto simp: save_def Let_def split: prod.splits if_splits)

text \<open>
  C3 fails on the code. \<open>save\<close> of a vector of \<^verbatim>\<open>signed char\<close> into the new
  container: the shape descriptor \<open>2\<close> is created, the type mapping throws the
  ConfigurationError, and the descriptor is still open when the error reaches the caller.
\<close>

theorem save_unmapped_type_leaves_dataspace_open:
  "fst (save example_engine 1 ''x'' T_signed_char [3, 4, 5] example_file) =
     Inl (ConfigurationError ''conversion of this type to HDF5 type not implemented.'') \<and>
   open_ids example_file = {1} \<and>
   open_ids (snd (save example_engine 1 ''x'' T_signed_char [3, 4, 5] example_file)) = {1, 2} \<and>
   map_of (objs (snd (save example_engine 1 ''x'' T_signed_char [3, 4, 5] example_file))) 2
     = Some (SpaceObj [3])"
  by (auto simp: save_def example_engine_def example_file_def open_ids_def ref_eval)

text \<open>
  C4 fails on the code. A successful \<open>save\<close> leaves the shape descriptor \<open>2\<close> and the
  entry descriptor \<open>3\<close> open, and a \<open>load\<close> of the two-dimensional entry \<^verbatim>\<open>m\<close> throws
  the ShapeError with the entry, type and shape descriptors \<open>2\<close>, \<open>3\<close> and \<open>4\<close> open.
\<close>

theorem descriptors_left_open:
  "save example_engine 1 ''x'' T_int [3, 4, 5] example_file = (Inr (), example_saved) \<and>
   open_ids example_file = {1} \<and>
   open_ids example_saved = {1, 2, 3} \<and>
   fst (load example_memory example_engine 1 ''m'' T_int [] example_matrix) =
     Inl (ShapeError ''HDF5 dataset is not one-dimensional.'') \<and>
   open_ids example_matrix = {1} \<and>
   open_ids (snd (snd (load example_memory example_engine 1 ''m'' T_int [] example_matrix))) = {1, 2, 3, 4}"
proof -
  have "open_ids example_file = {1}" "open_ids example_saved = {1, 2, 3}"
    "open_ids example_matrix = {1}"
    by (auto simp: open_ids_def example_file_def example_saved_def example_matrix_def)
  moreover have "fst (load example_memory example_engine 1 ''m'' T_int [] example_matrix) =
     Inl (ShapeError ''HDF5 dataset is not one-dimensional.'')"
    by (simp add: load_def example_engine_def example_matrix_def ref_eval)
  moreover have
    "open_ids (snd (snd (load example_memory example_engine 1 ''m'' T_int [] example_matrix))) = {1, 2, 3, 4}"
    by (auto simp: load_def example_engine_def example_matrix_def open_ids_def ref_eval)
  ultimately show ?thesis
    using example_saved_saved by simp
qed

end
